theory Spec2Isabelle
  imports Complex_Main "HOL-Library.Multiset"
begin

section \<open>JavaScript numbers\<close>

text \<open>
  A JavaScript \<open>number\<close> is modelled as \<open>NaN\<close>, one of the two infinities, or a finite
  rational. Finite arithmetic is exact: the rounding of a finite result to 53 bits of
  precision and overflow to an infinity are outside the model, and \<open>+0\<close> and \<open>-0\<close> are
  one value (\<open>===\<close> and the comparisons do not tell them apart either).
\<close>

datatype jsnum = NaN | NInf | Fin rat | PInf

definition isNaN :: "jsnum \<Rightarrow> bool" where
  "isNaN x = (x = NaN)"

fun js_neg :: "jsnum \<Rightarrow> jsnum" where
  "js_neg NaN = NaN"
| "js_neg NInf = PInf"
| "js_neg PInf = NInf"
| "js_neg (Fin a) = Fin (- a)"

fun js_add :: "jsnum \<Rightarrow> jsnum \<Rightarrow> jsnum" where
  "js_add NaN y = NaN"
| "js_add x NaN = NaN"
| "js_add PInf NInf = NaN"
| "js_add NInf PInf = NaN"
| "js_add PInf y = PInf"
| "js_add NInf y = NInf"
| "js_add (Fin a) PInf = PInf"
| "js_add (Fin a) NInf = NInf"
| "js_add (Fin a) (Fin b) = Fin (a + b)"

definition js_sub :: "jsnum \<Rightarrow> jsnum \<Rightarrow> jsnum" where
  "js_sub x y = js_add x (js_neg y)"

fun js_sgn :: "jsnum \<Rightarrow> rat" where
  "js_sgn NaN = 0"
| "js_sgn NInf = - 1"
| "js_sgn PInf = 1"
| "js_sgn (Fin a) = sgn a"

fun js_mul :: "jsnum \<Rightarrow> jsnum \<Rightarrow> jsnum" where
  "js_mul NaN y = NaN"
| "js_mul x NaN = NaN"
| "js_mul (Fin a) (Fin b) = Fin (a * b)"
| "js_mul x y =
     (if js_sgn x * js_sgn y = 0 then NaN
      else if js_sgn x * js_sgn y > 0 then PInf else NInf)"

text \<open>
  Division. A zero divisor is taken as \<open>+0\<close>; the one division of the source,
  \<open>ms / 1000\<close>, has a non-zero finite divisor.
\<close>

fun js_div :: "jsnum \<Rightarrow> jsnum \<Rightarrow> jsnum" where
  "js_div NaN y = NaN"
| "js_div x NaN = NaN"
| "js_div (Fin a) (Fin b) =
     (if b = 0 then (if a = 0 then NaN else if a > 0 then PInf else NInf)
      else Fin (a / b))"
| "js_div (Fin a) y = Fin 0"
| "js_div x (Fin b) =
     (if js_sgn x * (if b < 0 then - 1 else 1) > 0 then PInf else NInf)"
| "js_div x y = NaN"

text \<open>The relational operators; every comparison with \<open>NaN\<close> is false.\<close>

fun js_lt :: "jsnum \<Rightarrow> jsnum \<Rightarrow> bool" where
  "js_lt NaN y = False"
| "js_lt x NaN = False"
| "js_lt PInf y = False"
| "js_lt x NInf = False"
| "js_lt NInf y = True"
| "js_lt (Fin a) PInf = True"
| "js_lt (Fin a) (Fin b) = (a < b)"

definition js_gt :: "jsnum \<Rightarrow> jsnum \<Rightarrow> bool" where
  "js_gt x y = js_lt y x"

definition js_le :: "jsnum \<Rightarrow> jsnum \<Rightarrow> bool" where
  "js_le x y = (x \<noteq> NaN \<and> y \<noteq> NaN \<and> \<not> js_lt y x)"

definition js_ge :: "jsnum \<Rightarrow> jsnum \<Rightarrow> bool" where
  "js_ge x y = js_le y x"

section \<open>JavaScript strings\<close>

text \<open>
  Strings are lists of 8-bit characters (code points 0 to 255). The white space that
  \<open>trim\<close>, \<open>Number\<close> and \<open>parseInt\<close> skip is, in that range: tab, line feed, vertical
  tab, form feed, carriage return, space and no-break space.
\<close>

abbreviation LF :: char where "LF \<equiv> CHR 0x0A"
abbreviation CR :: char where "CR \<equiv> CHR 0x0D"

definition js_ws :: "char \<Rightarrow> bool" where
  "js_ws c = (c \<in> set [CHR 0x09, CHR 0x0A, CHR 0x0B, CHR 0x0C, CHR 0x0D, CHR 0x20, CHR 0xA0])"

definition trimStart :: "string \<Rightarrow> string" where
  "trimStart s = dropWhile js_ws s"

definition trimEnd :: "string \<Rightarrow> string" where
  "trimEnd s = rev (dropWhile js_ws (rev s))"

definition trim :: "string \<Rightarrow> string" where
  "trim s = trimEnd (trimStart s)"

fun starts_with :: "string \<Rightarrow> string \<Rightarrow> bool" where
  "starts_with [] s = True"
| "starts_with (p # ps) [] = False"
| "starts_with (p # ps) (c # cs) = (p = c \<and> starts_with ps cs)"

text \<open>\<open>s.includes(sub)\<close>\<close>

fun js_includes :: "string \<Rightarrow> string \<Rightarrow> bool" where
  "js_includes sub [] = (sub = [])"
| "js_includes sub (c # cs) = (starts_with sub (c # cs) \<or> js_includes sub cs)"

text \<open>
  \<open>s.split(sep)\<close> for a non-empty separator string: the pieces between the
  non-overlapping occurrences of \<open>sep\<close>, found from the left. The result is never empty
  (the empty string splits into one empty piece).
\<close>

fun split_on :: "string \<Rightarrow> string \<Rightarrow> string list" where
  "split_on sep [] = [[]]"
| "split_on sep (c # cs) =
     (if starts_with sep (c # cs) then [] # split_on sep (drop (length sep - 1) cs)
      else (case split_on sep cs of [] \<Rightarrow> [[c]] | p # ps \<Rightarrow> (c # p) # ps))"

text \<open>\<open>s.split(/[,.]/)\<close>: split at every character of a class.\<close>

fun split_class :: "(char \<Rightarrow> bool) \<Rightarrow> string \<Rightarrow> string list" where
  "split_class P [] = [[]]"
| "split_class P (c # cs) =
     (if P c then [] # split_class P cs
      else (case split_class P cs of [] \<Rightarrow> [[c]] | p # ps \<Rightarrow> (c # p) # ps))"

text \<open>\<open>xs.join(sep)\<close>\<close>

fun join :: "string \<Rightarrow> string list \<Rightarrow> string" where
  "join sep [] = []"
| "join sep [x] = x"
| "join sep (x # y # ys) = x @ sep @ join sep (y # ys)"

text \<open>\<open>xs[i]\<close>: \<open>undefined\<close> (here \<open>None\<close>) out of range.\<close>

definition at_index :: "'a list \<Rightarrow> nat \<Rightarrow> 'a option" where
  "at_index xs i = (if i < length xs then Some (xs ! i) else None)"

text \<open>\<open>s.replace(/\r\n/g, '\n')\<close> and \<open>s.replace(/\r/g, '\n')\<close>\<close>

fun replace_crlf :: "string \<Rightarrow> string" where
  "replace_crlf [] = []"
| "replace_crlf [c] = [c]"
| "replace_crlf (c # d # cs) =
     (if c = CR \<and> d = LF then LF # replace_crlf cs else c # replace_crlf (d # cs))"

definition replace_cr :: "string \<Rightarrow> string" where
  "replace_cr s = map (\<lambda>c. if c = CR then LF else c) s"

definition is_digit :: "char \<Rightarrow> bool" where
  "is_digit c = (c \<in> set ''0123456789'')"

text \<open>\<open>s.match(/^\d+$/)\<close> as a truth value: one or more decimal digits and nothing else.\<close>

definition match_digits :: "string \<Rightarrow> bool" where
  "match_digits s = (s \<noteq> [] \<and> list_all is_digit s)"

text \<open>
  \<^verbatim>\<open>s.replace(/<\/?[^>]+(>|$)/g, "")\<close>. A match starts at a less-than sign that is
  followed by at least one character other than the greater-than sign; it takes the
  longest run of such characters (the optional slash is one of them, and so is a line
  feed) and the greater-than sign after the run, if there is one, else it ends with the
  string. Matches are removed from the left.
\<close>

function strip_tags :: "string \<Rightarrow> string" where
  "strip_tags [] = []"
| "strip_tags (c # cs) =
     (if c = CHR ''<'' \<and> takeWhile (\<lambda>d. d \<noteq> CHR ''>'') cs \<noteq> []
      then strip_tags (drop 1 (dropWhile (\<lambda>d. d \<noteq> CHR ''>'') cs))
      else c # strip_tags cs)"
  by pat_completeness auto
termination
proof (relation "measure length")
  show "wf (measure length)" by simp
next
  fix c :: char and cs :: string
  have "length (dropWhile (\<lambda>d. d \<noteq> CHR ''>'') cs) \<le> length cs"
    by (rule length_dropWhile_le)
  then show "(drop 1 (dropWhile (\<lambda>d. d \<noteq> CHR ''>'') cs), c # cs) \<in> measure length"
    by simp
next
  fix c :: char and cs :: string
  show "(cs, c # cs) \<in> measure length" by simp
qed

section \<open>String to number conversion\<close>

definition digit_val :: "char \<Rightarrow> nat" where
  "digit_val c = of_char c - 48"

definition dec_val :: "string \<Rightarrow> nat" where
  "dec_val ds = foldl (\<lambda>a c. 10 * a + digit_val c) 0 ds"

text \<open>The value of a character as a digit of a radix up to 36, for the prefixed literals.\<close>

definition digit_of :: "char \<Rightarrow> nat option" where
  "digit_of c =
     (let n = (of_char c :: nat) in
      if 48 \<le> n \<and> n \<le> 57 then Some (n - 48)
      else if 97 \<le> n \<and> n \<le> 122 then Some (n - 87)
      else if 65 \<le> n \<and> n \<le> 90 then Some (n - 55)
      else None)"

definition is_radix_digit :: "nat \<Rightarrow> char \<Rightarrow> bool" where
  "is_radix_digit r c = (case digit_of c of None \<Rightarrow> False | Some v \<Rightarrow> v < r)"

definition radix_val :: "nat \<Rightarrow> string \<Rightarrow> nat" where
  "radix_val r ds = foldl (\<lambda>a c. r * a + (case digit_of c of None \<Rightarrow> 0 | Some v \<Rightarrow> v)) 0 ds"

definition non_decimal :: "nat \<Rightarrow> string \<Rightarrow> jsnum" where
  "non_decimal r ds =
     (if ds \<noteq> [] \<and> list_all (is_radix_digit r) ds then Fin (of_nat (radix_val r ds)) else NaN)"

text \<open>The optional exponent part that ends a decimal literal: \<open>None\<close> if the rest is no
  exponent part.\<close>

definition str_exponent :: "string \<Rightarrow> int option" where
  "str_exponent r =
     (case r of
        [] \<Rightarrow> Some 0
      | e # r1 \<Rightarrow>
          if e = CHR ''e'' \<or> e = CHR ''E'' then
            (let neg = (r1 \<noteq> [] \<and> hd r1 = CHR ''-'');
                 ds = (if r1 \<noteq> [] \<and> (hd r1 = CHR ''+'' \<or> hd r1 = CHR ''-'') then tl r1 else r1)
             in if match_digits ds
                then Some (if neg then - int (dec_val ds) else int (dec_val ds))
                else None)
          else None)"

text \<open>An unsigned decimal literal: \<open>Infinity\<close>, or digits with an optional fraction and
  an optional exponent, at least one digit before or after the point.\<close>

definition str_unsigned_decimal :: "string \<Rightarrow> jsnum" where
  "str_unsigned_decimal s =
     (if s = ''Infinity'' then PInf
      else
        let ip = takeWhile is_digit s;
            r1 = dropWhile is_digit s;
            dot = (r1 \<noteq> [] \<and> hd r1 = CHR ''.'');
            fp = (if dot then takeWhile is_digit (tl r1) else []);
            r2 = (if dot then dropWhile is_digit (tl r1) else r1)
        in if ip = [] \<and> fp = [] then NaN
           else (case str_exponent r2 of
                   None \<Rightarrow> NaN
                 | Some e \<Rightarrow>
                     Fin ((of_nat (dec_val ip) + of_nat (dec_val fp) / 10 ^ length fp)
                          * (if 0 \<le> e then 10 ^ nat e else 1 / 10 ^ nat (- e)))))"

text \<open>
  \<open>Number(str)\<close> on a string: white space is trimmed, the empty string is 0, a literal
  with prefix \<open>0x\<close>, \<open>0o\<close> or \<open>0b\<close> is read in its radix, a decimal literal may carry a
  sign, and every other string is \<open>NaN\<close>.
\<close>

definition js_Number :: "string \<Rightarrow> jsnum" where
  "js_Number str =
     (let s = trim str in
      if s = [] then Fin 0
      else if starts_with ''0x'' s \<or> starts_with ''0X'' s then non_decimal 16 (drop 2 s)
      else if starts_with ''0o'' s \<or> starts_with ''0O'' s then non_decimal 8 (drop 2 s)
      else if starts_with ''0b'' s \<or> starts_with ''0B'' s then non_decimal 2 (drop 2 s)
      else if hd s = CHR ''+'' then str_unsigned_decimal (tl s)
      else if hd s = CHR ''-'' then js_neg (str_unsigned_decimal (tl s))
      else str_unsigned_decimal s)"

text \<open>
  \<open>parseInt(str, 10)\<close>: leading white space is skipped, then an optional sign, then the
  longest run of decimal digits is read; \<open>NaN\<close> if there is no digit.
\<close>

definition parseInt10 :: "string \<Rightarrow> jsnum" where
  "parseInt10 str =
     (let s = trimStart str;
          neg = (s \<noteq> [] \<and> hd s = CHR ''-'');
          s1 = (if s \<noteq> [] \<and> (hd s = CHR ''+'' \<or> hd s = CHR ''-'') then tl s else s);
          z = takeWhile is_digit s1
      in if z = [] then NaN
         else if neg then Fin (- of_nat (dec_val z)) else Fin (of_nat (dec_val z)))"

section \<open>The subtitle parser\<close>

record SubtitleCue =
  cue_start :: jsnum
  cue_end :: jsnum
  cue_text :: string

text \<open>A method call on \<open>undefined\<close> throws a \<open>TypeError\<close>.\<close>

datatype js_error = TypeError

text \<open>An \<open>undefined\<close> operand of the arithmetic converts to \<open>NaN\<close>.\<close>

definition num_at :: "jsnum list \<Rightarrow> nat \<Rightarrow> jsnum" where
  "num_at xs i = (case at_index xs i of None \<Rightarrow> NaN | Some x \<Rightarrow> x)"

definition parseTime :: "string option \<Rightarrow> js_error + jsnum" where
  "parseTime timeStr =
     (case timeStr of
        None \<Rightarrow> Inr (Fin 0)
      | Some ts \<Rightarrow>
          if ts = [] then Inr (Fin 0)
          else
            let parts = split_class (\<lambda>c. c = CHR '','' \<or> c = CHR ''.'') ts;
                hms = at_index parts 0;
                msStr = at_index parts 1
            in (case hms of
                  None \<Rightarrow> Inl TypeError
                | Some hms' \<Rightarrow>
                    let nums = map js_Number (split_on '':'' hms');
                        h = num_at nums 0;
                        m = num_at nums 1;
                        s = num_at nums 2;
                        ms = parseInt10 (case msStr of None \<Rightarrow> ''0''
                                         | Some x \<Rightarrow> if x = [] then ''0'' else x)
                    in Inr (js_add (js_add (js_add (js_mul h (Fin 3600)) (js_mul m (Fin 60))) s)
                              (js_div ms (Fin 1000)))))"

text \<open>
  The local variables of the callback of \<open>blocks.forEach\<close>: the lines of the trimmed
  block, the index of the time line (1 when the first line is a number and the second has
  the separator, else 0; \<open>lines[0].match\<close> would throw on a missing first line), and the
  trimmed pieces of the time line around the separator.
\<close>

definition blockLines :: "string \<Rightarrow> string list" where
  "blockLines block = split_on [LF] (trim block)"

definition timeIndexOf :: "string list \<Rightarrow> js_error + nat" where
  "timeIndexOf lines =
     (case at_index lines 0 of
        None \<Rightarrow> Inl TypeError
      | Some l0 \<Rightarrow>
          Inr (if match_digits l0 \<and>
                  (case at_index lines 1 of None \<Rightarrow> False
                   | Some l1 \<Rightarrow> js_includes ''-->'' l1)
               then 1 else 0))"

definition timeParts :: "string \<Rightarrow> string list" where
  "timeParts timeLine = map trim (split_on ''-->'' timeLine)"

text \<open>
  The callback itself: it takes the cues collected so far and one block and returns the
  cues after the block (\<open>cues.push\<close> appends at most one).
\<close>

definition parseBlock :: "SubtitleCue list \<Rightarrow> string \<Rightarrow> js_error + SubtitleCue list" where
  "parseBlock cues block =
     (let lines = blockLines block in
      if length lines < 2 then Inr cues
      else
        (case timeIndexOf lines of
           Inl e \<Rightarrow> Inl e
         | Inr timeIndex \<Rightarrow>
             (case at_index lines timeIndex of
                None \<Rightarrow> Inr cues
              | Some timeLine \<Rightarrow>
                  if timeLine = [] \<or> \<not> js_includes ''-->'' timeLine then Inr cues
                  else
                    let startStr = at_index (timeParts timeLine) 0;
                        endStr = at_index (timeParts timeLine) 1
                    in (case parseTime startStr of
                          Inl e \<Rightarrow> Inl e
                        | Inr start \<Rightarrow>
                            (case parseTime endStr of
                               Inl e \<Rightarrow> Inl e
                             | Inr end' \<Rightarrow>
                                 let text' = strip_tags (join [LF] (drop (timeIndex + 1) lines))
                                 in if \<not> isNaN start \<and> \<not> isNaN end'
                                    then Inr (cues @ [\<lparr>cue_start = start, cue_end = end',
                                                      cue_text = text'\<rparr>])
                                    else Inr cues)))))"

text \<open>\<open>xs.forEach(f)\<close> with the mutated variable threaded through; a throw ends the loop.\<close>

fun forEach :: "('s \<Rightarrow> 'a \<Rightarrow> js_error + 's) \<Rightarrow> 's \<Rightarrow> 'a list \<Rightarrow> js_error + 's" where
  "forEach f st [] = Inr st"
| "forEach f st (x # xs) = (case f st x of Inl e \<Rightarrow> Inl e | Inr st' \<Rightarrow> forEach f st' xs)"

definition parseSRT :: "string \<Rightarrow> js_error + SubtitleCue list" where
  "parseSRT content =
     (let normalized = replace_cr (replace_crlf content);
          blocks = split_on [LF, LF] normalized
      in forEach parseBlock [] blocks)"

section \<open>The player component\<close>

subsection \<open>Data\<close>

text \<open>
  A chapter object of \<open>video.metadata.chapters\<close>. \<open>oid\<close> is the identity of the object:
  \<open>indexOf\<close> compares chapters with \<open>===\<close>, by identity and not by content.
\<close>

record Chapter =
  oid :: nat
  title :: string
  startTime :: jsnum
  endTime :: "jsnum option"

record Track =
  track_id :: string
  label :: string
  lang :: "string option"

text \<open>The media element behind \<open>videoRef.current\<close>: the fields the handlers read and write.
  An assignment to \<open>currentTime\<close> is the seek request; the element is taken to accept it
  as it is.\<close>

record HTMLVideoElement =
  v_currentTime :: jsnum
  v_paused :: bool
  v_error :: "nat option"
  v_src :: bool

text \<open>The two callbacks the component passes to \<open>window.setTimeout\<close>.\<close>

datatype TimerCallback = HideControls | HideControlsAndCursor

text \<open>
  The state of a player: the \<open>useState\<close> cells, the refs, the prop
  \<open>video.metadata.chapters\<close>, and the part of the host the handlers act on (the pending
  timers with their delay, the pending animation frames, the cursor style of the document
  body, whether the event listeners are attached, whether the component is mounted).
\<close>

record PlayerState =
  isPlaying :: bool
  currentTime :: jsnum
  duration :: jsnum
  showControls :: bool
  showStats :: bool
  showChapterList :: bool
  showSettings :: bool
  isBuffering :: bool
  error :: "string option"
  subtitleTracks :: "Track list"
  selectedSubtitleTrack :: string
  activeCues :: "SubtitleCue list"
  currentSubtitle :: string
  subtitleOffset :: jsnum
  statsUpdates :: nat
  metadataChapters :: "Chapter list option"
  videoRef :: "HTMLVideoElement option"
  controlsTimeoutRef :: "nat option"
  animationFrameId :: "nat option"
  timers :: "(nat \<times> nat \<times> TimerCallback) list"
  nextTimerId :: nat
  frames :: "nat list"
  nextFrameId :: nat
  bodyCursor :: string
  listeners :: bool
  mounted :: bool

subsection \<open>Chapters\<close>

text \<open>
  \<open>xs.sort(cmp)\<close>. The language specifies a stable sort, and a comparator result of
  \<open>NaN\<close> counts as 0; for a comparator that is a consistent ordering every stable sort
  gives the same array, here built by stable insertion.
\<close>

fun insert_by :: "('a \<Rightarrow> 'a \<Rightarrow> jsnum) \<Rightarrow> 'a \<Rightarrow> 'a list \<Rightarrow> 'a list" where
  "insert_by cmp x [] = [x]"
| "insert_by cmp x (y # ys) =
     (if js_gt (cmp x y) (Fin 0) then y # insert_by cmp x ys else x # y # ys)"

definition js_sort :: "('a \<Rightarrow> 'a \<Rightarrow> jsnum) \<Rightarrow> 'a list \<Rightarrow> 'a list" where
  "js_sort cmp xs = foldr (insert_by cmp) xs []"

text \<open>The memoised \<open>chapters\<close> of the component, from the prop and the \<open>duration\<close> cell.\<close>

definition chapters_memo :: "Chapter list option \<Rightarrow> jsnum \<Rightarrow> Chapter list" where
  "chapters_memo mc d =
     (case mc of
        None \<Rightarrow> []
      | Some cs \<Rightarrow>
          if d = Fin 0 then []
          else js_sort (\<lambda>a b. js_sub (startTime a) (startTime b))
                 (filter (\<lambda>c. js_lt (startTime c) d) cs))"

definition chapters :: "PlayerState \<Rightarrow> Chapter list" where
  "chapters st = chapters_memo (metadataChapters st) (duration st)"

text \<open>\<open>xs.indexOf(x)\<close> on chapter objects: the first index holding the same object, else -1.\<close>

fun indexOf :: "Chapter list \<Rightarrow> Chapter \<Rightarrow> int" where
  "indexOf [] x = - 1"
| "indexOf (y # ys) x =
     (if oid y = oid x then 0
      else (let i = indexOf ys x in if i < 0 then - 1 else i + 1))"

subsection \<open>Controls and timers\<close>

text \<open>\<open>controlsTimeoutRef.current = window.setTimeout(cb, delay)\<close>: the host hands out
  the next timer identifier, and the ref keeps it. \<open>clearTimeout\<close> drops a pending
  timer.\<close>

definition setTimeout :: "TimerCallback \<Rightarrow> nat \<Rightarrow> PlayerState \<Rightarrow> PlayerState" where
  "setTimeout cb delay st =
     st\<lparr>timers := timers st @ [(nextTimerId st, delay, cb)],
        controlsTimeoutRef := Some (nextTimerId st),
        nextTimerId := nextTimerId st + 1\<rparr>"

definition clearTimeout :: "nat \<Rightarrow> PlayerState \<Rightarrow> PlayerState" where
  "clearTimeout i st = st\<lparr>timers := filter (\<lambda>t. fst t \<noteq> i) (timers st)\<rparr>"

text \<open>\<open>if (controlsTimeoutRef.current) clearTimeout(controlsTimeoutRef.current)\<close>; the
  identifier 0 is falsy like \<open>null\<close>.\<close>

definition clearControlsTimeout :: "PlayerState \<Rightarrow> PlayerState" where
  "clearControlsTimeout st =
     (case controlsTimeoutRef st of
        None \<Rightarrow> st
      | Some i \<Rightarrow> if i = 0 then st else clearTimeout i st)"

definition showControlsTemp :: "PlayerState \<Rightarrow> PlayerState" where
  "showControlsTemp st =
     setTimeout HideControls 2000 (clearControlsTimeout (st\<lparr>showControls := True\<rparr>))"

definition handleMouseMove :: "PlayerState \<Rightarrow> PlayerState" where
  "handleMouseMove st =
     (let st1 = clearControlsTimeout (st\<lparr>showControls := True, bodyCursor := ''default''\<rparr>)
      in if isPlaying st \<and> \<not> showChapterList st \<and> \<not> showSettings st
         then setTimeout HideControlsAndCursor 3000 st1
         else st1)"

text \<open>
  The host runs a pending timer: the timer leaves the pending list and its callback
  runs. This is the one place where component code can run after the unmount, and there
  the state setter changes nothing: an update of an unmounted component is dropped.
\<close>

definition setShowControlsLate :: "bool \<Rightarrow> PlayerState \<Rightarrow> PlayerState" where
  "setShowControlsLate b st = (if mounted st then st\<lparr>showControls := b\<rparr> else st)"

definition runCallback :: "TimerCallback \<Rightarrow> PlayerState \<Rightarrow> PlayerState" where
  "runCallback cb st =
     (case cb of
        HideControls \<Rightarrow> setShowControlsLate False st
      | HideControlsAndCursor \<Rightarrow> (setShowControlsLate False st)\<lparr>bodyCursor := ''none''\<rparr>)"

definition fireTimer :: "nat \<Rightarrow> PlayerState \<Rightarrow> PlayerState" where
  "fireTimer i st =
     (case find (\<lambda>t. fst t = i) (timers st) of
        None \<Rightarrow> st
      | Some t \<Rightarrow> runCallback (snd (snd t)) (clearTimeout i st))"

subsection \<open>Chapter navigation\<close>

definition seekVideo :: "jsnum \<Rightarrow> PlayerState \<Rightarrow> PlayerState" where
  "seekVideo t st =
     (case videoRef st of
        None \<Rightarrow> st
      | Some v \<Rightarrow> st\<lparr>videoRef := Some (v\<lparr>v_currentTime := t\<rparr>)\<rparr>)"

definition skipNextChapter :: "PlayerState \<Rightarrow> PlayerState" where
  "skipNextChapter st =
     (if chapters st = [] \<or> videoRef st = None then st
      else
        let next = find (\<lambda>c. js_gt (startTime c) (js_add (currentTime st) (Fin 1))) (chapters st);
            st1 = (case next of
                     None \<Rightarrow> st
                   | Some n \<Rightarrow> (seekVideo (startTime n) st)\<lparr>currentTime := startTime n\<rparr>)
        in showControlsTemp st1)"

text \<open>\<open>chapters[prevIndex].startTime\<close> throws when the index holds no chapter.\<close>

definition skipPrevChapter :: "PlayerState \<Rightarrow> js_error + PlayerState" where
  "skipPrevChapter st =
     (if chapters st = [] \<or> videoRef st = None then Inr st
      else
        let current = find (\<lambda>c. js_ge (currentTime st) (startTime c)) (rev (chapters st));
            r1 = (case current of
                    None \<Rightarrow> Inr (seekVideo (Fin 0) st)
                  | Some cur \<Rightarrow>
                      if js_lt (js_sub (currentTime st) (startTime cur)) (Fin 3) then
                        (let prevIndex = indexOf (chapters st) cur - 1
                         in if prevIndex \<ge> 0
                            then (case at_index (chapters st) (nat prevIndex) of
                                    None \<Rightarrow> Inl TypeError
                                  | Some p \<Rightarrow> Inr (seekVideo (startTime p) st))
                            else Inr (seekVideo (Fin 0) st))
                      else Inr (seekVideo (startTime cur) st))
        in (case r1 of
              Inl e \<Rightarrow> Inl e
            | Inr st1 \<Rightarrow>
                let st2 = (case videoRef st1 of
                             None \<Rightarrow> st1
                           | Some v \<Rightarrow> st1\<lparr>currentTime := v_currentTime v\<rparr>)
                in Inr (showControlsTemp st2)))"

subsection \<open>The error handler of the media element\<close>

text \<open>\<open>onError\<close> reads \<open>v.error\<close>, here the argument: \<open>None\<close> for \<open>null\<close>, else the code.\<close>

definition onError :: "nat option \<Rightarrow> PlayerState \<Rightarrow> PlayerState" where
  "onError verr st =
     (case verr of
        None \<Rightarrow> st
      | Some code \<Rightarrow>
          if code = 1 then st
          else
            let msg =
              (if code = 2 then ''A network error caused the video download to fail.''
               else if code = 3 then ''The video playback was aborted due to a corruption problem or because the video used features your browser did not support.''
               else if code = 4 then ''The video could not be loaded, either because the server or network failed or because the format is not supported.''
               else ''An unknown playback error occurred.'')
            in st\<lparr>error := Some msg, isPlaying := False, isBuffering := False\<rparr>)"

subsection \<open>Overlay panels\<close>

text \<open>The \<open>onClick\<close> handlers of the chapter-list, stats and settings buttons, and of the
  chapter title in the control bar.\<close>

definition clickChapterListButton :: "PlayerState \<Rightarrow> PlayerState" where
  "clickChapterListButton st =
     st\<lparr>showChapterList := \<not> showChapterList st, showStats := False, showSettings := False\<rparr>"

definition clickStatsButton :: "PlayerState \<Rightarrow> PlayerState" where
  "clickStatsButton st =
     st\<lparr>showStats := \<not> showStats st, showChapterList := False, showSettings := False\<rparr>"

definition clickSettingsButton :: "PlayerState \<Rightarrow> PlayerState" where
  "clickSettingsButton st =
     st\<lparr>showSettings := \<not> showSettings st, showStats := False, showChapterList := False\<rparr>"

definition clickChapterTitle :: "PlayerState \<Rightarrow> PlayerState" where
  "clickChapterTitle st = st\<lparr>showChapterList := True\<rparr>"

definition openPanels :: "PlayerState \<Rightarrow> nat" where
  "openPanels st =
     (if showStats st then 1 else 0) + (if showSettings st then 1 else 0)
     + (if showChapterList st then 1 else 0)"

subsection \<open>Subtitles\<close>

function show_nat :: "nat \<Rightarrow> string" where
  "show_nat n =
     (if n < 10 then [char_of (48 + n)]
      else show_nat (n div 10) @ [char_of (48 + n mod 10)])"
  by pat_completeness auto
termination
  by (relation "measure id") auto

declare show_nat.simps [simp del]

text \<open>
  \<open>handleSubtitleFile\<close> with the \<open>onload\<close> callback of its reader. \<open>file\<close> is
  \<open>e.target.files?.[0]\<close>: its name and what the reader delivers (\<open>None\<close> when the result
  is not a string); \<open>now\<close> is \<open>Date.now()\<close>. A throw of the parser would leave the
  callback before any cell is set.
\<close>

definition handleSubtitleFile ::
    "(string \<times> string option) option \<Rightarrow> nat \<Rightarrow> PlayerState \<Rightarrow> PlayerState" where
  "handleSubtitleFile file now st =
     (case file of
        None \<Rightarrow> st
      | Some (name, result) \<Rightarrow>
          (case result of
             None \<Rightarrow> st
           | Some content \<Rightarrow>
               (case parseSRT content of
                  Inl e \<Rightarrow> st
                | Inr parsed \<Rightarrow>
                    let newTrackId = ''upload-'' @ show_nat now;
                        newTrack = \<lparr>track_id = newTrackId, label = name, lang = Some ''Unknown''\<rparr>
                    in st\<lparr>subtitleTracks := subtitleTracks st @ [newTrack],
                          selectedSubtitleTrack := newTrackId,
                          activeCues := parsed,
                          showSettings := True\<rparr>)))"

text \<open>With no track, \<open>toggleSubtitles\<close> clicks the hidden file input, which changes no
  cell.\<close>

definition toggleSubtitles :: "PlayerState \<Rightarrow> PlayerState" where
  "toggleSubtitles st =
     (if selectedSubtitleTrack st = ''off'' then
        (case subtitleTracks st of
           [] \<Rightarrow> st
         | t # ts \<Rightarrow> st\<lparr>selectedSubtitleTrack := track_id t\<rparr>)
      else st\<lparr>selectedSubtitleTrack := ''off''\<rparr>)"

text \<open>The effect that keeps \<open>currentSubtitle\<close> up to date.\<close>

definition updateCurrentSubtitle :: "PlayerState \<Rightarrow> PlayerState" where
  "updateCurrentSubtitle st =
     (if selectedSubtitleTrack st = ''off'' \<or> activeCues st = [] then st\<lparr>currentSubtitle := []\<rparr>
      else
        let adjustedTime = js_sub (currentTime st) (subtitleOffset st);
            cue = find (\<lambda>s. js_ge adjustedTime (cue_start s) \<and> js_le adjustedTime (cue_end s))
                    (activeCues st)
        in st\<lparr>currentSubtitle := (case cue of None \<Rightarrow> [] | Some c \<Rightarrow> cue_text c)\<rparr>)"

subsection \<open>The statistics loop and the teardown\<close>

text \<open>
  \<open>updateStats\<close> samples the element (counted in \<open>statsUpdates\<close>) and requests the next
  animation frame; the effect starts it when \<open>showStats\<close> holds and its cleanup cancels
  the frame last requested.
\<close>

definition updateStats :: "PlayerState \<Rightarrow> PlayerState" where
  "updateStats st =
     (let st1 = (if videoRef st = None then st else st\<lparr>statsUpdates := statsUpdates st + 1\<rparr>)
      in st1\<lparr>frames := frames st1 @ [nextFrameId st1],
             animationFrameId := Some (nextFrameId st1),
             nextFrameId := nextFrameId st1 + 1\<rparr>)"

definition statsEffect :: "PlayerState \<Rightarrow> PlayerState" where
  "statsEffect st = (if \<not> showStats st then st else updateStats st)"

definition statsCleanup :: "PlayerState \<Rightarrow> PlayerState" where
  "statsCleanup st =
     (case animationFrameId st of
        None \<Rightarrow> st
      | Some i \<Rightarrow> st\<lparr>frames := filter (\<lambda>j. j \<noteq> i) (frames st), animationFrameId := None\<rparr>)"

definition fireFrame :: "nat \<Rightarrow> PlayerState \<Rightarrow> PlayerState" where
  "fireFrame i st =
     (if i \<in> set (frames st) then updateStats (st\<lparr>frames := filter (\<lambda>j. j \<noteq> i) (frames st)\<rparr>)
      else st)"

text \<open>The cleanup of the effect that attaches the listeners of the media element.\<close>

definition videoCleanup :: "PlayerState \<Rightarrow> PlayerState" where
  "videoCleanup st =
     (case videoRef st of
        None \<Rightarrow> st
      | Some v \<Rightarrow> st\<lparr>listeners := False, videoRef := Some (v\<lparr>v_paused := True, v_src := False\<rparr>)\<rparr>)"

text \<open>Unmounting runs the cleanup of every effect of the component. These two and the
  removal of the media-query and key listeners are all the cleanups there are.\<close>

definition unmount :: "PlayerState \<Rightarrow> PlayerState" where
  "unmount st = (videoCleanup (statsCleanup st))\<lparr>mounted := False\<rparr>"

subsection \<open>The state after mounting\<close>

definition initialState :: "Chapter list option \<Rightarrow> PlayerState" where
  "initialState mc =
     \<lparr>isPlaying = False, currentTime = Fin 0, duration = Fin 0, showControls = True,
      showStats = False, showChapterList = False, showSettings = False, isBuffering = False,
      error = None, subtitleTracks = [], selectedSubtitleTrack = ''off'', activeCues = [],
      currentSubtitle = [], subtitleOffset = Fin 0, statsUpdates = 0,
      metadataChapters = mc,
      videoRef = Some \<lparr>v_currentTime = Fin 0, v_paused = True, v_error = None, v_src = True\<rparr>,
      controlsTimeoutRef = None, animationFrameId = None, timers = [], nextTimerId = 1,
      frames = [], nextFrameId = 1, bodyCursor = [], listeners = True, mounted = True\<rparr>"

section \<open>Derived notions and sample data\<close>

text \<open>The cues one block contributes, and the blocks of a file.\<close>

definition blockCues :: "string \<Rightarrow> SubtitleCue list" where
  "blockCues block = (case parseBlock [] block of Inl e \<Rightarrow> [] | Inr cs \<Rightarrow> cs)"

definition blocksOf :: "string \<Rightarrow> string list" where
  "blocksOf content = split_on [LF, LF] (replace_cr (replace_crlf content))"

abbreviation by_startTime :: "Chapter \<Rightarrow> Chapter \<Rightarrow> jsnum" where
  "by_startTime \<equiv> (\<lambda>a b. js_sub (startTime a) (startTime b))"

abbreviation ascending :: "Chapter list \<Rightarrow> bool" where
  "ascending \<equiv> sorted_wrt (\<lambda>a b. js_le (startTime a) (startTime b))"

text \<open>The first chapters of the mock metadata that the application gives every file.\<close>

definition mockChapters :: "Chapter list" where
  "mockChapters =
     [\<lparr>oid = 0, title = ''Prologue'', startTime = Fin 0, endTime = None\<rparr>,
      \<lparr>oid = 1, title = ''The Opening'', startTime = Fin 60, endTime = None\<rparr>,
      \<lparr>oid = 2, title = ''Act I: Initiation'', startTime = Fin 180, endTime = None\<rparr>]"

definition sampleSRT :: string where
  "sampleSRT = ''00:01:02,500 --> 00:01:05,000'' @ [LF] @ ''Hello''"

text \<open>A file of five blocks: two well-formed ones around three that are not.\<close>

definition mixedSRT :: string where
  "mixedSRT = ''1'' @ [LF] @ ''00:00:01,000 --> 00:00:02,000'' @ [LF] @ ''A'' @ [LF, LF]
     @ ''junk only'' @ [LF, LF]
     @ ''no arrow'' @ [LF] @ ''line'' @ [LF, LF]
     @ ''xx:yy --> 00:00:02,000'' @ [LF] @ ''bad'' @ [LF, LF]
     @ ''00:00:03.000 --> 00:00:04.000'' @ [LF] @ ''B''"







section \<open>The parser returns\<close>

lemma split_on_not_Nil: "split_on sep s \<noteq> []"
  by (induction s) (auto split: list.splits)

lemma split_class_not_Nil: "split_class P s \<noteq> []"
  by (induction s) (auto split: list.splits)

lemma at_index_0: "xs \<noteq> [] \<Longrightarrow> at_index xs 0 = Some (hd xs)"
  by (cases xs) (auto simp: at_index_def)

lemma parseTime_total: "\<exists>t. parseTime x = Inr t"
proof (cases x)
  case None
  then show ?thesis by (simp add: parseTime_def)
next
  case (Some ts)
  have "at_index (split_class (\<lambda>c. c = CHR '','' \<or> c = CHR ''.'') ts) 0 \<noteq> None"
    by (simp add: at_index_0 split_class_not_Nil)
  then show ?thesis
    using Some by (auto simp: parseTime_def Let_def split: option.splits)
qed

lemma timeIndexOf_total: "lines \<noteq> [] \<Longrightarrow> \<exists>i. timeIndexOf lines = Inr i"
  by (simp add: timeIndexOf_def at_index_0)

lemma blockLines_not_Nil: "blockLines block \<noteq> []"
  by (simp add: blockLines_def split_on_not_Nil)

lemma parseBlock_append: "parseBlock cues block = Inr (cues @ blockCues block)"
proof -
  obtain i where i: "timeIndexOf (blockLines block) = Inr i"
    using timeIndexOf_total [OF blockLines_not_Nil] by blast
  show ?thesis
  proof (cases "at_index (blockLines block) i")
    case None
    then show ?thesis by (simp add: parseBlock_def blockCues_def Let_def i)
  next
    case (Some timeLine)
    obtain a where a: "parseTime (at_index (timeParts timeLine) 0) = Inr a"
      using parseTime_total by blast
    obtain b where b: "parseTime (at_index (timeParts timeLine) 1) = Inr b"
      using parseTime_total by blast
    have b': "parseTime (at_index (timeParts timeLine) (Suc 0)) = Inr b"
      using b by simp
    show ?thesis
      by (simp add: parseBlock_def blockCues_def Let_def i Some a b')
  qed
qed

lemma forEach_parseBlock:
  "forEach parseBlock cues bs = Inr (cues @ concat (map blockCues bs))"
  by (induction bs arbitrary: cues) (simp_all add: parseBlock_append)

lemma parseSRT_blocks: "parseSRT content = Inr (concat (map blockCues (blocksOf content)))"
  by (simp add: parseSRT_def blocksOf_def Let_def forEach_parseBlock)

lemma parseSRT_total: "\<exists>cues. parseSRT content = Inr cues"
  by (simp add: parseSRT_blocks)

lemma blockCues_short: "length (blockLines block) < 2 \<Longrightarrow> blockCues block = []"
  by (simp add: blockCues_def parseBlock_def)

lemma blockCues_no_arrow:
  assumes "timeIndexOf (blockLines block) = Inr i"
      and "at_index (blockLines block) i = Some timeLine"
      and "\<not> js_includes ''-->'' timeLine"
  shows "blockCues block = []"
  using assms by (simp add: blockCues_def parseBlock_def Let_def)

lemma blockCues_NaN:
  assumes "timeIndexOf (blockLines block) = Inr i"
      and "at_index (blockLines block) i = Some timeLine"
      and "parseTime (at_index (timeParts timeLine) 0) = Inr NaN
           \<or> parseTime (at_index (timeParts timeLine) 1) = Inr NaN"
  shows "blockCues block = []"
proof -
  obtain a where a: "parseTime (at_index (timeParts timeLine) 0) = Inr a"
    using parseTime_total by blast
  obtain b where b: "parseTime (at_index (timeParts timeLine) 1) = Inr b"
    using parseTime_total by blast
  have b': "parseTime (at_index (timeParts timeLine) (Suc 0)) = Inr b"
    using b by simp
  show ?thesis
    using assms a b b' by (auto simp: blockCues_def parseBlock_def Let_def isNaN_def)
qed

text \<open>
  Claim C2. \<open>parseSRT\<close> throws on no input: it returns the cues of its blocks, block by
  block, so a block that contributes none leaves the cues of the other blocks in place.
  The empty input gives no cue. A block contributes no cue when it has fewer than two
  lines, when its time line lacks the separator, and when one of its two timestamps
  parses to \<open>NaN\<close>.
\<close>

theorem parseSRT_never_throws:
  "(\<exists>cues. parseSRT content = Inr cues)
   \<and> parseSRT content = Inr (concat (map blockCues (blocksOf content)))
   \<and> parseSRT [] = Inr []
   \<and> (length (blockLines block) < 2 \<longrightarrow> blockCues block = [])
   \<and> (timeIndexOf (blockLines block) = Inr i \<and> at_index (blockLines block) i = Some timeLine
        \<and> \<not> js_includes ''-->'' timeLine \<longrightarrow> blockCues block = [])
   \<and> (timeIndexOf (blockLines block) = Inr i \<and> at_index (blockLines block) i = Some timeLine
        \<and> (parseTime (at_index (timeParts timeLine) 0) = Inr NaN
            \<or> parseTime (at_index (timeParts timeLine) 1) = Inr NaN) \<longrightarrow> blockCues block = [])"
proof -
  have "parseSRT [] = Inr []"
    by (simp add: parseSRT_def replace_cr_def parseBlock_def blockLines_def trim_def
        trimEnd_def trimStart_def)
  then show ?thesis
    using parseSRT_total parseSRT_blocks blockCues_short blockCues_no_arrow blockCues_NaN
    by blast
qed

theorem parseSRT_never_throws_witness:
  "blocksOf mixedSRT =
     [''1'' @ [LF] @ ''00:00:01,000 --> 00:00:02,000'' @ [LF] @ ''A'',
      ''junk only'',
      ''no arrow'' @ [LF] @ ''line'',
      ''xx:yy --> 00:00:02,000'' @ [LF] @ ''bad'',
      ''00:00:03.000 --> 00:00:04.000'' @ [LF] @ ''B'']
   \<and> parseSRT mixedSRT =
       Inr [\<lparr>cue_start = Fin 1, cue_end = Fin 2, cue_text = ''A''\<rparr>,
            \<lparr>cue_start = Fin 3, cue_end = Fin 4, cue_text = ''B''\<rparr>]
   \<and> length (blockLines ''junk only'') < 2
   \<and> blockCues ''junk only'' = []
   \<and> timeIndexOf (blockLines (''no arrow'' @ [LF] @ ''line'')) = Inr 0
   \<and> at_index (blockLines (''no arrow'' @ [LF] @ ''line'')) 0 = Some ''no arrow''
   \<and> \<not> js_includes ''-->'' ''no arrow''
   \<and> blockCues (''no arrow'' @ [LF] @ ''line'') = []
   \<and> timeIndexOf (blockLines (''xx:yy --> 00:00:02,000'' @ [LF] @ ''bad'')) = Inr 0
   \<and> at_index (blockLines (''xx:yy --> 00:00:02,000'' @ [LF] @ ''bad'')) 0
       = Some ''xx:yy --> 00:00:02,000''
   \<and> parseTime (at_index (timeParts ''xx:yy --> 00:00:02,000'') 0) = Inr NaN
   \<and> blockCues (''xx:yy --> 00:00:02,000'' @ [LF] @ ''bad'') = []"
proof -
  have e1: "blocksOf mixedSRT =
     [''1'' @ [LF] @ ''00:00:01,000 --> 00:00:02,000'' @ [LF] @ ''A'',
      ''junk only'',
      ''no arrow'' @ [LF] @ ''line'',
      ''xx:yy --> 00:00:02,000'' @ [LF] @ ''bad'',
      ''00:00:03.000 --> 00:00:04.000'' @ [LF] @ ''B'']"
    by code_simp
  have e2: "parseSRT mixedSRT =
       Inr [\<lparr>cue_start = Fin 1, cue_end = Fin 2, cue_text = ''A''\<rparr>,
            \<lparr>cue_start = Fin 3, cue_end = Fin 4, cue_text = ''B''\<rparr>]"
    by code_simp
  have h1: "length (blockLines ''junk only'') < 2"
    by code_simp
  have h2: "timeIndexOf (blockLines (''no arrow'' @ [LF] @ ''line'')) = Inr 0"
           "at_index (blockLines (''no arrow'' @ [LF] @ ''line'')) 0 = Some ''no arrow''"
           "\<not> js_includes ''-->'' ''no arrow''"
    by code_simp+
  have h3: "timeIndexOf (blockLines (''xx:yy --> 00:00:02,000'' @ [LF] @ ''bad'')) = Inr 0"
           "at_index (blockLines (''xx:yy --> 00:00:02,000'' @ [LF] @ ''bad'')) 0
             = Some ''xx:yy --> 00:00:02,000''"
           "parseTime (at_index (timeParts ''xx:yy --> 00:00:02,000'') 0) = Inr NaN"
    by code_simp+
  show ?thesis
    using e1 e2 h1 h2 h3
      parseSRT_never_throws [of mixedSRT "''junk only''" 0 "[]"]
      parseSRT_never_throws [of mixedSRT "''no arrow'' @ [LF] @ ''line''" 0 "''no arrow''"]
      parseSRT_never_throws [of mixedSRT "''xx:yy --> 00:00:02,000'' @ [LF] @ ''bad''" 0
                                "''xx:yy --> 00:00:02,000''"]
    by blast
qed

section \<open>Well-formed blocks\<close>








































section \<open>The active chapter list\<close>

lemma cmp_gt_zero: "js_gt (js_sub a b) (Fin 0) = js_lt b a"
  by (cases a; cases b) (auto simp: js_gt_def js_sub_def)

lemma js_le_trans: "js_le a b \<Longrightarrow> js_le b c \<Longrightarrow> js_le a c"
  by (cases a; cases b; cases c) (auto simp: js_le_def)

lemma js_le_total: "a \<noteq> NaN \<Longrightarrow> b \<noteq> NaN \<Longrightarrow> \<not> js_lt b a \<Longrightarrow> js_le a b"
  by (simp add: js_le_def)

lemma js_lt_imp_le: "js_lt a b \<Longrightarrow> js_le a b"
  by (cases a; cases b) (auto simp: js_le_def)

lemma js_lt_not_NaN: "js_lt a b \<Longrightarrow> a \<noteq> NaN \<and> b \<noteq> NaN"
  by (cases a; cases b) auto

lemma js_ge_not_lt: "js_ge a b \<Longrightarrow> \<not> js_lt a b"
  by (simp add: js_ge_def js_le_def)

lemma mset_insert_by: "mset (insert_by cmp x xs) = add_mset x (mset xs)"
  by (induction xs) auto

lemma set_insert_by: "set (insert_by cmp x xs) = insert x (set xs)"
  by (induction xs) auto

lemma mset_js_sort: "mset (js_sort cmp xs) = mset xs"
  by (induction xs) (auto simp: js_sort_def mset_insert_by)

lemma set_js_sort: "set (js_sort cmp xs) = set xs"
  by (induction xs) (auto simp: js_sort_def set_insert_by)

lemma ascending_insert_by:
  assumes "ascending xs" and "startTime x \<noteq> NaN" and "\<forall>y \<in> set xs. startTime y \<noteq> NaN"
  shows "ascending (insert_by by_startTime x xs)"
  using assms
proof (induction xs)
  case Nil
  then show ?case by simp
next
  case (Cons y ys)
  show ?case
  proof (cases "js_lt (startTime y) (startTime x)")
    case True
    then have "js_le (startTime y) (startTime x)" by (rule js_lt_imp_le)
    moreover have "ascending (insert_by by_startTime x ys)"
      using Cons by simp
    ultimately show ?thesis
      using True Cons.prems by (auto simp: cmp_gt_zero set_insert_by)
  next
    case False
    then have xy: "js_le (startTime x) (startTime y)"
      using Cons.prems by (simp add: js_le_total)
    then have "\<forall>z \<in> set ys. js_le (startTime x) (startTime z)"
      using Cons.prems(1) by (auto intro: js_le_trans)
    then show ?thesis
      using False xy Cons.prems by (simp add: cmp_gt_zero)
  qed
qed

lemma ascending_js_sort:
  "\<forall>y \<in> set xs. startTime y \<noteq> NaN \<Longrightarrow> ascending (js_sort by_startTime xs)"
proof (induction xs)
  case Nil
  then show ?case by (simp add: js_sort_def)
next
  case (Cons x xs)
  then have "ascending (js_sort by_startTime xs)" by simp
  then have "ascending (insert_by by_startTime x (js_sort by_startTime xs))"
    using Cons.prems by (intro ascending_insert_by) (auto simp: set_js_sort)
  then show ?case by (simp add: js_sort_def)
qed

lemma ascending_chapters_memo: "ascending (chapters_memo mc d)"
  by (auto simp: chapters_memo_def split: option.splits intro!: ascending_js_sort
      dest: js_lt_not_NaN)

text \<open>
  Claim C3. For a chapter list and a duration other than 0, the active chapter list
  holds exactly the chapters whose \<open>startTime\<close> is below the duration, each as often as
  the metadata has it, so none whose \<open>startTime\<close> is the duration or more, in ascending
  order of \<open>startTime\<close>.
\<close>

theorem active_chapters:
  assumes "d \<noteq> Fin 0"
  shows "mset (chapters_memo (Some cs) d) = mset (filter (\<lambda>c. js_lt (startTime c) d) cs)
         \<and> (\<forall>c. c \<in> set (chapters_memo (Some cs) d) \<longleftrightarrow> c \<in> set cs \<and> js_lt (startTime c) d)
         \<and> (\<forall>c. js_ge (startTime c) d \<longrightarrow> c \<notin> set (chapters_memo (Some cs) d))
         \<and> sorted_wrt (\<lambda>a b. js_le (startTime a) (startTime b)) (chapters_memo (Some cs) d)"
  using assms ascending_chapters_memo [of "Some cs" d]
  by (auto simp: chapters_memo_def mset_js_sort set_js_sort dest: js_ge_not_lt)

theorem active_chapters_witness:
  "Fin 100 \<noteq> Fin 0
   \<and> map startTime mockChapters = [Fin 0, Fin 60, Fin 180]
   \<and> js_ge (startTime (mockChapters ! 2)) (Fin 100)
   \<and> mockChapters ! 2 \<notin> set (chapters_memo (Some mockChapters) (Fin 100))
   \<and> chapters_memo (Some mockChapters) (Fin 100) = take 2 mockChapters
   \<and> map startTime (chapters_memo (Some mockChapters) (Fin 100)) = [Fin 0, Fin 60]"
proof -
  have g: "js_ge (startTime (mockChapters ! 2)) (Fin 100)"
    by (simp add: mockChapters_def js_ge_def js_le_def)
  have n: "Fin 100 \<noteq> Fin 0" by simp
  have x: "mockChapters ! 2 \<notin> set (chapters_memo (Some mockChapters) (Fin 100))"
    using active_chapters [OF n, of mockChapters] g by blast
  have e: "chapters_memo (Some mockChapters) (Fin 100) = take 2 mockChapters"
    by (simp add: chapters_memo_def mockChapters_def js_sort_def js_gt_def js_sub_def)
  have m: "map startTime mockChapters = [Fin 0, Fin 60, Fin 180]"
    by (simp add: mockChapters_def)
  have m2: "map startTime (take 2 mockChapters) = [Fin 0, Fin 60]"
    by (simp add: mockChapters_def)
  show ?thesis
    using g n x m m2 unfolding e by blast
qed

section \<open>Chapter navigation\<close>



















section \<open>Skipping with no active chapter\<close>

text \<open>
  Claim C10. The active chapter list is empty when the video has no chapter metadata and
  when the duration is still 0; and whenever it is empty, \<open>skipNextChapter\<close> and
  \<open>skipPrevChapter\<close> return the state unchanged, so neither seeks (\<open>skipPrevChapter\<close>
  does not seek to 0).
\<close>

theorem empty_chapters_skip_noop:
  "(metadataChapters st = None \<or> duration st = Fin 0 \<longrightarrow> chapters st = [])
   \<and> (chapters st = [] \<longrightarrow> skipNextChapter st = st \<and> skipPrevChapter st = Inr st)"
  by (auto simp: chapters_def chapters_memo_def skipNextChapter_def skipPrevChapter_def
      split: option.splits)

theorem empty_chapters_skip_noop_witness:
  "duration (initialState (Some mockChapters)) = Fin 0
   \<and> chapters (initialState (Some mockChapters)) = []
   \<and> skipNextChapter (initialState (Some mockChapters)) = initialState (Some mockChapters)
   \<and> skipPrevChapter (initialState (Some mockChapters)) = Inr (initialState (Some mockChapters))"
  using empty_chapters_skip_noop [of "initialState (Some mockChapters)"]
  by (simp add: initialState_def)

section \<open>The error handler\<close>

text \<open>
  Claim C6. The error handler of the media element: with no error object, and with error
  code 1 (abort), it returns the state as it is; codes 2, 3 and 4 set the network, the
  decode-or-corruption and the unsupported-format message, three different messages that
  also differ from the unknown-failure message; every other code sets the unknown-failure
  message; and every code but 1 leaves an error set with \<open>isPlaying\<close> and \<open>isBuffering\<close>
  false.
\<close>

theorem onError_contract:
  "onError None st = st
   \<and> onError (Some 1) st = st
   \<and> error (onError (Some 2) st) = Some ''A network error caused the video download to fail.''
   \<and> error (onError (Some 3) st) = Some ''The video playback was aborted due to a corruption problem or because the video used features your browser did not support.''
   \<and> error (onError (Some 4) st) = Some ''The video could not be loaded, either because the server or network failed or because the format is not supported.''
   \<and> distinct [error (onError (Some 2) st), error (onError (Some 3) st),
                error (onError (Some 4) st), Some ''An unknown playback error occurred.'']
   \<and> (code \<notin> {1, 2, 3, 4} \<longrightarrow>
        error (onError (Some code) st) = Some ''An unknown playback error occurred.'')
   \<and> (code \<noteq> 1 \<longrightarrow>
        error (onError (Some code) st) \<noteq> None
        \<and> \<not> isPlaying (onError (Some code) st) \<and> \<not> isBuffering (onError (Some code) st))"
  by (simp add: onError_def Let_def)

theorem onError_contract_witness:
  "(7::nat) \<notin> {1, 2, 3, 4} \<and> (7::nat) \<noteq> 1
   \<and> error (onError (Some 7) (initialState None)) = Some ''An unknown playback error occurred.''
   \<and> \<not> isPlaying (onError (Some 7) ((initialState None)\<lparr>isPlaying := True, isBuffering := True\<rparr>))
   \<and> \<not> isBuffering (onError (Some 7) ((initialState None)\<lparr>isPlaying := True, isBuffering := True\<rparr>))
   \<and> onError (Some 1) ((initialState None)\<lparr>isPlaying := True\<rparr>) = (initialState None)\<lparr>isPlaying := True\<rparr>"
  using onError_contract [of "initialState None" 7]
        onError_contract [of "(initialState None)\<lparr>isPlaying := True, isBuffering := True\<rparr>" 7]
        onError_contract [of "(initialState None)\<lparr>isPlaying := True\<rparr>" 7]
  by simp

section \<open>Overlay panels\<close>

lemma parseSRT_sampleSRT:
  "parseSRT sampleSRT = Inr [\<lparr>cue_start = Fin (125 / 2), cue_end = Fin 65, cue_text = ''Hello''\<rparr>]"
  by code_simp

lemma buttons_exclusive:
  "openPanels (clickChapterListButton st) \<le> 1"
  "openPanels (clickStatsButton st) \<le> 1"
  "openPanels (clickSettingsButton st) \<le> 1"
  by (simp_all add: openPanels_def clickChapterListButton_def clickStatsButton_def
      clickSettingsButton_def)

text \<open>
  Claim C7, at the input where the code departs from it. The stats button opens the stats
  panel of a fresh player; the import of a subtitle file then opens the settings panel
  and leaves the stats panel open: two panels are open.
\<close>

theorem import_keeps_stats_open:
  "showStats (clickStatsButton (initialState None))
   \<and> openPanels (clickStatsButton (initialState None)) = 1
   \<and> showSettings (handleSubtitleFile (Some (''a.srt'', Some sampleSRT)) 5
                     (clickStatsButton (initialState None)))
   \<and> showStats (handleSubtitleFile (Some (''a.srt'', Some sampleSRT)) 5
                  (clickStatsButton (initialState None)))
   \<and> openPanels (handleSubtitleFile (Some (''a.srt'', Some sampleSRT)) 5
                   (clickStatsButton (initialState None))) = 2"
  by (simp add: handleSubtitleFile_def parseSRT_sampleSRT clickStatsButton_def
      initialState_def openPanels_def Let_def)

section \<open>Teardown\<close>

text \<open>
  Claim C8, at the input where the code departs from it. A pointer move over a playing
  player arms the 3-second timer; unmounting leaves that timer pending, and when it fires
  it sets the cursor style of the document body. The animation frame of the statistics
  loop, in contrast, is cancelled by the unmount.
\<close>

theorem timer_survives_unmount:
  "timers (unmount (handleMouseMove ((initialState None)\<lparr>isPlaying := True\<rparr>)))
     = [(1, 3000, HideControlsAndCursor)]
   \<and> bodyCursor (unmount (handleMouseMove ((initialState None)\<lparr>isPlaying := True\<rparr>)))
     = ''default''
   \<and> bodyCursor (fireTimer 1 (unmount (handleMouseMove ((initialState None)\<lparr>isPlaying := True\<rparr>))))
     = ''none''
   \<and> frames (statsEffect (clickStatsButton (initialState None))) = [1]
   \<and> frames (unmount (statsEffect (clickStatsButton (initialState None)))) = []"
  by (simp add: unmount_def handleMouseMove_def initialState_def fireTimer_def
      runCallback_def setShowControlsLate_def clearTimeout_def setTimeout_def clearControlsTimeout_def
      statsCleanup_def videoCleanup_def statsEffect_def updateStats_def
      clickStatsButton_def Let_def)

section \<open>The subtitle round trip\<close>

lemma show_nat_not_Nil: "show_nat n \<noteq> []"
  by (subst show_nat.simps) simp

text \<open>
  Claim C9. From a state whose tracks are real tracks (none has the identifier \<open>off\<close>):
  importing a subtitle file appends a track, selects it and makes the parsed cues active;
  toggling subtitles off selects \<open>off\<close> and blanks the subtitle; toggling on again selects
  a track (the first of the list, which is the imported one when it is the only track),
  with the same active cues and the same displayed subtitle as before toggling off.
\<close>

theorem subtitle_round_trip:
  assumes "\<forall>t \<in> set (subtitleTracks st). track_id t \<noteq> ''off''"
  shows "\<exists>parsed s1 s2 s3.
           parseSRT content = Inr parsed
           \<and> s1 = updateCurrentSubtitle (handleSubtitleFile (Some (name, Some content)) now st)
           \<and> s2 = updateCurrentSubtitle (toggleSubtitles s1)
           \<and> s3 = updateCurrentSubtitle (toggleSubtitles s2)
           \<and> subtitleTracks s1 = subtitleTracks st
                @ [\<lparr>track_id = ''upload-'' @ show_nat now, label = name, lang = Some ''Unknown''\<rparr>]
           \<and> selectedSubtitleTrack s1 = ''upload-'' @ show_nat now
           \<and> activeCues s1 = parsed
           \<and> selectedSubtitleTrack s2 = ''off''
           \<and> currentSubtitle s2 = []
           \<and> selectedSubtitleTrack s3 \<noteq> ''off''
           \<and> selectedSubtitleTrack s3 = track_id (hd (subtitleTracks s1))
           \<and> (subtitleTracks st = [] \<longrightarrow> selectedSubtitleTrack s3 = selectedSubtitleTrack s1)
           \<and> activeCues s3 = activeCues s1
           \<and> currentSubtitle s3 = currentSubtitle s1"
proof -
  obtain parsed where p: "parseSRT content = Inr parsed"
    using parseSRT_total by blast
  define s0 where "s0 = handleSubtitleFile (Some (name, Some content)) now st"
  have s0: "s0 = st\<lparr>subtitleTracks := subtitleTracks st
                      @ [\<lparr>track_id = ''upload-'' @ show_nat now, label = name, lang = Some ''Unknown''\<rparr>],
                    selectedSubtitleTrack := ''upload-'' @ show_nat now,
                    activeCues := parsed, showSettings := True\<rparr>"
    by (simp add: s0_def handleSubtitleFile_def p Let_def)
  define s1 where "s1 = updateCurrentSubtitle s0"
  define s2 where "s2 = updateCurrentSubtitle (toggleSubtitles s1)"
  define s3 where "s3 = updateCurrentSubtitle (toggleSubtitles s2)"
  have sel0: "selectedSubtitleTrack s0 \<noteq> ''off''" by (simp add: s0)
  have tr1: "subtitleTracks s1 = subtitleTracks s0" "selectedSubtitleTrack s1 = selectedSubtitleTrack s0"
            "activeCues s1 = activeCues s0" "currentTime s1 = currentTime s0"
            "subtitleOffset s1 = subtitleOffset s0"
    by (simp_all add: s1_def updateCurrentSubtitle_def Let_def)
  have sel2: "selectedSubtitleTrack s2 = ''off''" "currentSubtitle s2 = []"
             "subtitleTracks s2 = subtitleTracks s0" "activeCues s2 = activeCues s0"
             "currentTime s2 = currentTime s0" "subtitleOffset s2 = subtitleOffset s0"
    using sel0 by (simp_all add: s2_def updateCurrentSubtitle_def toggleSubtitles_def tr1)
  obtain t ts where tts: "subtitleTracks s0 = t # ts"
    by (cases "subtitleTracks s0") (auto simp: s0)
  have hd_id: "track_id t \<noteq> ''off''"
    using assms tts by (cases "subtitleTracks st") (auto simp: s0)
  have tog3: "toggleSubtitles s2 = s2\<lparr>selectedSubtitleTrack := track_id t\<rparr>"
    by (simp add: toggleSubtitles_def sel2 tts)
  have sel3: "selectedSubtitleTrack s3 = track_id t" "activeCues s3 = activeCues s0"
    by (simp_all add: s3_def tog3 updateCurrentSubtitle_def Let_def sel2)
  have cur: "currentSubtitle s3 = currentSubtitle s1"
    using hd_id sel0
    by (simp add: s3_def s1_def tog3 updateCurrentSubtitle_def Let_def sel2)
  have only: "subtitleTracks st = [] \<longrightarrow> selectedSubtitleTrack s3 = selectedSubtitleTrack s1"
    using tts by (auto simp: sel3 tr1 s0)
  have tr0: "subtitleTracks s1 = subtitleTracks st
                @ [\<lparr>track_id = ''upload-'' @ show_nat now, label = name, lang = Some ''Unknown''\<rparr>]"
            "selectedSubtitleTrack s1 = ''upload-'' @ show_nat now"
            "activeCues s1 = parsed"
    by (simp_all add: tr1 s0)
  have hd1: "selectedSubtitleTrack s3 = track_id (hd (subtitleTracks s1))"
    by (simp add: sel3 tr1 tts)
  have ne3: "selectedSubtitleTrack s3 \<noteq> ''off''"
    using hd_id by (simp add: sel3)
  have ac: "activeCues s3 = activeCues s1"
    by (simp add: sel3 tr1)
  have "parseSRT content = Inr parsed
           \<and> s1 = updateCurrentSubtitle (handleSubtitleFile (Some (name, Some content)) now st)
           \<and> s2 = updateCurrentSubtitle (toggleSubtitles s1)
           \<and> s3 = updateCurrentSubtitle (toggleSubtitles s2)
           \<and> subtitleTracks s1 = subtitleTracks st
                @ [\<lparr>track_id = ''upload-'' @ show_nat now, label = name, lang = Some ''Unknown''\<rparr>]
           \<and> selectedSubtitleTrack s1 = ''upload-'' @ show_nat now
           \<and> activeCues s1 = parsed
           \<and> selectedSubtitleTrack s2 = ''off''
           \<and> currentSubtitle s2 = []
           \<and> selectedSubtitleTrack s3 \<noteq> ''off''
           \<and> selectedSubtitleTrack s3 = track_id (hd (subtitleTracks s1))
           \<and> (subtitleTracks st = [] \<longrightarrow> selectedSubtitleTrack s3 = selectedSubtitleTrack s1)
           \<and> activeCues s3 = activeCues s1
           \<and> currentSubtitle s3 = currentSubtitle s1"
    using p s1_def [unfolded s0_def] s2_def s3_def tr0 sel2(1,2) ne3 hd1 only ac cur
    by blast
  then show ?thesis by blast
qed

theorem subtitle_round_trip_witness:
  "subtitleTracks ((initialState None)\<lparr>currentTime := Fin 63\<rparr>) = []
   \<and> activeCues (updateCurrentSubtitle (handleSubtitleFile (Some (''a.srt'', Some sampleSRT)) 5
        ((initialState None)\<lparr>currentTime := Fin 63\<rparr>)))
       = [\<lparr>cue_start = Fin (125 / 2), cue_end = Fin 65, cue_text = ''Hello''\<rparr>]
   \<and> currentSubtitle (updateCurrentSubtitle (handleSubtitleFile (Some (''a.srt'', Some sampleSRT)) 5
        ((initialState None)\<lparr>currentTime := Fin 63\<rparr>))) = ''Hello''
   \<and> selectedSubtitleTrack (updateCurrentSubtitle (toggleSubtitles (updateCurrentSubtitle
        (handleSubtitleFile (Some (''a.srt'', Some sampleSRT)) 5
          ((initialState None)\<lparr>currentTime := Fin 63\<rparr>))))) = ''off''
   \<and> selectedSubtitleTrack (updateCurrentSubtitle (toggleSubtitles (updateCurrentSubtitle
        (toggleSubtitles (updateCurrentSubtitle
          (handleSubtitleFile (Some (''a.srt'', Some sampleSRT)) 5
            ((initialState None)\<lparr>currentTime := Fin 63\<rparr>))))))) = ''upload-5''
   \<and> activeCues (updateCurrentSubtitle (toggleSubtitles (updateCurrentSubtitle
        (toggleSubtitles (updateCurrentSubtitle
          (handleSubtitleFile (Some (''a.srt'', Some sampleSRT)) 5
            ((initialState None)\<lparr>currentTime := Fin 63\<rparr>)))))))
       = [\<lparr>cue_start = Fin (125 / 2), cue_end = Fin 65, cue_text = ''Hello''\<rparr>]
   \<and> currentSubtitle (updateCurrentSubtitle (toggleSubtitles (updateCurrentSubtitle
        (toggleSubtitles (updateCurrentSubtitle
          (handleSubtitleFile (Some (''a.srt'', Some sampleSRT)) 5
            ((initialState None)\<lparr>currentTime := Fin 63\<rparr>))))))) = ''Hello''"
proof -
  define st where "st = (initialState None)\<lparr>currentTime := Fin 63\<rparr>"
  have tr: "subtitleTracks st = []"
    by (simp add: st_def initialState_def)
  then have h: "\<forall>t \<in> set (subtitleTracks st). track_id t \<noteq> ''off''"
    by simp
  have n5: "show_nat 5 = ''5''"
    by code_simp
  have ct: "currentTime st = Fin 63" "subtitleOffset st = Fin 0"
    by (simp_all add: st_def initialState_def)
  have imp: "handleSubtitleFile (Some (''a.srt'', Some sampleSRT)) 5 st
      = st\<lparr>subtitleTracks := [\<lparr>track_id = ''upload-5'', label = ''a.srt'', lang = Some ''Unknown''\<rparr>],
            selectedSubtitleTrack := ''upload-5'',
            activeCues := [\<lparr>cue_start = Fin (125 / 2), cue_end = Fin 65, cue_text = ''Hello''\<rparr>],
            showSettings := True\<rparr>"
    by (simp add: handleSubtitleFile_def parseSRT_sampleSRT Let_def n5 tr)
  have cur1: "currentSubtitle (updateCurrentSubtitle
                (handleSubtitleFile (Some (''a.srt'', Some sampleSRT)) 5 st)) = ''Hello''"
    unfolding imp
    by (simp add: updateCurrentSubtitle_def Let_def ct js_sub_def js_ge_def js_le_def)
  obtain parsed s1 s2 s3 where r:
    "parseSRT sampleSRT = Inr parsed"
    "s1 = updateCurrentSubtitle (handleSubtitleFile (Some (''a.srt'', Some sampleSRT)) 5 st)"
    "s2 = updateCurrentSubtitle (toggleSubtitles s1)"
    "s3 = updateCurrentSubtitle (toggleSubtitles s2)"
    "selectedSubtitleTrack s1 = ''upload-'' @ show_nat 5"
    "activeCues s1 = parsed"
    "selectedSubtitleTrack s2 = ''off''"
    "subtitleTracks st = [] \<longrightarrow> selectedSubtitleTrack s3 = selectedSubtitleTrack s1"
    "activeCues s3 = activeCues s1"
    "currentSubtitle s3 = currentSubtitle s1"
    using subtitle_round_trip [OF h, of sampleSRT "''a.srt''" 5] by blast
  have p: "parsed = [\<lparr>cue_start = Fin (125 / 2), cue_end = Fin 65, cue_text = ''Hello''\<rparr>]"
    using r(1) by (simp add: parseSRT_sampleSRT)
  have sel3: "selectedSubtitleTrack s3 = ''upload-5''"
    using r(8) tr r(5) by (simp add: n5)
  show ?thesis
    using tr p sel3 r(6,7,9,10) cur1
    unfolding r(2,3,4) st_def
    by simp
qed

end
